theory Spec2Isabelle
  imports Main "HOL-Library.Sublist"
begin

section \<open>JavaScript strings and arrays\<close>

text \<open>
  A JavaScript string is the list of its UTF-16 code units, each a natural number below
  65536; its \<^verbatim>\<open>length\<close> is the length of the list. \<open>str\<close> gives the string of a literal
  that the source writes in ASCII.
\<close>

type_synonym js_string = "nat list"

definition str :: "string \<Rightarrow> js_string" where
  "str s = map of_char s"

definition isAscii :: "js_string \<Rightarrow> bool" where
  "isAscii s = list_all (\<lambda>u. u < 128) s"

text \<open>
  \<^verbatim>\<open>String.prototype.toLowerCase\<close> and \<^verbatim>\<open>String.prototype.toUpperCase\<close>, as they are on
  ASCII: a code unit outside ASCII is left as it is. JavaScript lowercases two code
  units outside ASCII to an ASCII letter, U+212A to \<open>k\<close> and U+0130 to \<open>i\<close> followed by
  U+0307. The handlers search the lowercased text only for the words of their lists,
  none of which contains \<open>k\<close> or ends in \<open>i\<close>, so these searches find in
  \<open>toLowerCase t\<close> what they find in the lowercased text of JavaScript. The statements
  that compare a text with its uppercased or lowercased form carry the hypothesis that
  the text is ASCII.
\<close>

definition toLowerChar :: "nat \<Rightarrow> nat" where
  "toLowerChar u = (if 65 \<le> u \<and> u \<le> 90 then u + 32 else u)"

definition toUpperChar :: "nat \<Rightarrow> nat" where
  "toUpperChar u = (if 97 \<le> u \<and> u \<le> 122 then u - 32 else u)"

definition toLowerCase :: "js_string \<Rightarrow> js_string" where
  "toLowerCase s = map toLowerChar s"

definition toUpperCase :: "js_string \<Rightarrow> js_string" where
  "toUpperCase s = map toUpperChar s"

text \<open>
  The code units that \<^verbatim>\<open>String.prototype.trim\<close> strips, the white space and line
  terminators of ECMAScript: tab, line feed, vertical tab, form feed, carriage return,
  space, U+00A0, U+1680, U+2000 to U+200A, U+2028, U+2029, U+202F, U+205F, U+3000 and
  U+FEFF.
\<close>

definition isWhiteSpace :: "nat \<Rightarrow> bool" where
  "isWhiteSpace u =
     ((9 \<le> u \<and> u \<le> 13) \<or> u = 32 \<or> u = 0xA0 \<or> u = 0x1680
      \<or> (0x2000 \<le> u \<and> u \<le> 0x200A) \<or> u = 0x2028 \<or> u = 0x2029
      \<or> u = 0x202F \<or> u = 0x205F \<or> u = 0x3000 \<or> u = 0xFEFF)"

definition trim :: "js_string \<Rightarrow> js_string" where
  "trim s = rev (dropWhile isWhiteSpace (rev (dropWhile isWhiteSpace s)))"

text \<open>\<^verbatim>\<open>String.prototype.includes\<close>: the argument occurs as a contiguous run of the
  receiver. \<open>startsWith s w\<close> tests it at the first position.\<close>

fun startsWith :: "js_string \<Rightarrow> js_string \<Rightarrow> bool" where
  "startsWith s [] = True"
| "startsWith [] (d # w) = False"
| "startsWith (c # s) (d # w) = (c = d \<and> startsWith s w)"

fun includes_str :: "js_string \<Rightarrow> js_string \<Rightarrow> bool" where
  "includes_str [] w = (w = [])"
| "includes_str (c # s) w = (startsWith (c # s) w \<or> includes_str s w)"

text \<open>\<^verbatim>\<open>Array.prototype.some\<close>: the callback holds of an element, tested from the left.\<close>

fun some :: "'a list \<Rightarrow> ('a \<Rightarrow> bool) \<Rightarrow> bool" where
  "some [] p = False"
| "some (x # xs) p = (p x \<or> some xs p)"


section \<open>Shared types\<close>

text \<open>\<^verbatim>\<open>type SentimentType = 'Positive' | 'Neutral' | 'Negative'\<close>\<close>

datatype SentimentType = Positive | Neutral | Negative

text \<open>
  A value of TypeScript's \<^verbatim>\<open>unknown\<close>. Numbers carry an integer and objects a reference:
  only the kind of the value matters to the comparisons below.
\<close>

datatype js_value =
    JSUndefined
  | JSNull
  | JSBoolean bool
  | JSNumber int
  | JSString js_string
  | JSObject nat

text \<open>\<^verbatim>\<open>value === 'literal'\<close>: strict equality with a string literal holds of the string
  primitive with the same code units, and of nothing else.\<close>

fun strictEqualsString :: "js_value \<Rightarrow> js_string \<Rightarrow> bool" where
  "strictEqualsString (JSString s) lit = (s = lit)"
| "strictEqualsString v lit = False"

text \<open>
  \<^verbatim>\<open>
  export function isSentimentType(value: unknown): value is SentimentType {
    return value === 'Positive' || value === 'Neutral' || value === 'Negative';
  }
  export const SENTIMENT_TYPES: readonly SentimentType[] = ['Positive', 'Neutral', 'Negative'] as const;
  \<close>
\<close>

definition isSentimentType :: "js_value \<Rightarrow> bool" where
  "isSentimentType v =
     (strictEqualsString v (str ''Positive'') \<or> strictEqualsString v (str ''Neutral'')
      \<or> strictEqualsString v (str ''Negative''))"

definition SENTIMENT_TYPES :: "js_value list" where
  "SENTIMENT_TYPES =
     [JSString (str ''Positive''), JSString (str ''Neutral''), JSString (str ''Negative'')]"


section \<open>Post creation: \<^verbatim>\<open>POST /api/posts\<close>\<close>

text \<open>The word lists are the handler's local constants.\<close>

definition positiveWords :: "js_string list" where
  "positiveWords =
     map str [''great'', ''awesome'', ''amazing'', ''love'', ''excellent'', ''fantastic'']"

definition negativeWords :: "js_string list" where
  "negativeWords =
     map str [''bad'', ''terrible'', ''hate'', ''awful'', ''horrible'', ''worst'']"

definition bannedWords :: "js_string list" where
  "bannedWords = map str [''spam'', ''scam'', ''banned_word'']"

text \<open>
  \<^verbatim>\<open>
  let sentiment: 'Positive' | 'Neutral' | 'Negative' = 'Neutral'
  const lowerContent = content.toLowerCase()
  const hasPositive = positiveWords.some((word) => lowerContent.includes(word))
  const hasNegative = negativeWords.some((word) => lowerContent.includes(word))
  if (hasPositive && !hasNegative) sentiment = 'Positive'
  else if (hasNegative && !hasPositive) sentiment = 'Negative'
  const flagged = bannedWords.some((word) => lowerContent.includes(word))
  const flagReason = flagged ? 'Contains inappropriate content' : undefined
  \<close>
  Each local of the handler is a function of \<open>content\<close>.
\<close>

definition lowerContent :: "js_string \<Rightarrow> js_string" where
  "lowerContent content = toLowerCase content"

definition hasPositive :: "js_string \<Rightarrow> bool" where
  "hasPositive content = some positiveWords (\<lambda>word. includes_str (lowerContent content) word)"

definition hasNegative :: "js_string \<Rightarrow> bool" where
  "hasNegative content = some negativeWords (\<lambda>word. includes_str (lowerContent content) word)"

definition sentiment_of :: "js_string \<Rightarrow> SentimentType" where
  "sentiment_of content =
     (if hasPositive content \<and> \<not> hasNegative content then Positive
      else if hasNegative content \<and> \<not> hasPositive content then Negative
      else Neutral)"

definition flagged_of :: "js_string \<Rightarrow> bool" where
  "flagged_of content = some bannedWords (\<lambda>word. includes_str (lowerContent content) word)"

definition flagReason_of :: "js_string \<Rightarrow> js_string option" where
  "flagReason_of content =
     (if flagged_of content then Some (str ''Contains inappropriate content'') else None)"

text \<open>
  The post of the 201 response (\<^verbatim>\<open>transformedPost\<close>), without the identifier, the author's
  name and avatar and the timestamps, which come from the database.
\<close>

record PostType =
  userId :: js_string
  content :: js_string
  sentiment :: SentimentType
  flagged :: bool
  isFlagged :: bool
  flagReason :: "js_string option"
  likes :: nat
  comments :: nat

text \<open>
  What a handler answers instead of its result: the 401, 400 and 500 responses of
  \<^verbatim>\<open>POST /api/posts\<close>, and the \<^verbatim>\<open>TypeError\<close> that leaves a handler with no
  \<^verbatim>\<open>try\<close> block.
\<close>

datatype error =
    AuthenticationRequired
  | ContentRequired
  | ContentTooLong
  | FailedToCreatePost
  | TypeError

text \<open>
  The handler. \<open>session\<close> is the user id of the session that \<^verbatim>\<open>requireAuth\<close> finds
  (\<open>None\<close>: it throws \<^verbatim>\<open>Authentication required\<close>, answered with 401). \<open>dbOk\<close> says
  whether \<^verbatim>\<open>connectDB\<close>, \<^verbatim>\<open>Post.create\<close> and \<^verbatim>\<open>User.findById\<close> succeed; otherwise the
  \<^verbatim>\<open>catch\<close> block answers 500. \<^verbatim>\<open>Post.create\<close> succeeds only for a user id that the
  schema can cast to an \<^verbatim>\<open>ObjectId\<close>, as the 24 hexadecimal digits of a stored user's id
  are. \<open>body\<close> is the \<^verbatim>\<open>content\<close> field of the request's JSON body, \<open>None\<close> when it is
  \<^verbatim>\<open>null\<close> or absent. A body that is not JSON, or a \<^verbatim>\<open>content\<close> that is neither a string
  nor \<^verbatim>\<open>null\<close>, is outside the model.
  \<^verbatim>\<open>
  const session = await requireAuth()
  const { content } = body
  if (!content || content.trim().length === 0) return 400 'Content is required'
  if (content.length > 2000) return 400 'Content must be less than 2000 characters'
  await connectDB()
  ...
  const post = await Post.create({ userId: session.userId, content, sentiment, flagged,
                                   flagReason, likes: [], comments: [] })
  \<close>
  The schema of \<^verbatim>\<open>Post\<close> trims the stored content (\<^verbatim>\<open>trim: true\<close>), and the response
  reads \<^verbatim>\<open>post.content\<close> back.
\<close>

definition POST :: "js_string option \<Rightarrow> bool \<Rightarrow> js_string option \<Rightarrow> error + PostType" where
  "POST session dbOk body =
     (case session of
        None \<Rightarrow> Inl AuthenticationRequired
      | Some uid \<Rightarrow>
         (case body of
            None \<Rightarrow> Inl ContentRequired
          | Some c \<Rightarrow>
             if c = [] \<or> length (trim c) = 0 then Inl ContentRequired
             else if length c > 2000 then Inl ContentTooLong
             else if \<not> dbOk then Inl FailedToCreatePost
             else Inr \<lparr> userId = uid,
                        content = trim c,
                        sentiment = sentiment_of c,
                        flagged = flagged_of c,
                        isFlagged = flagged_of c,
                        flagReason = flagReason_of c,
                        likes = 0,
                        comments = 0 \<rparr>))"


section \<open>The moderation endpoint\<close>

text \<open>
  \<^verbatim>\<open>
  export async function POST(request: NextRequest) {
      const { text } = await request.json();
      // Simple moderation logic: flag text containing banned word
      return NextResponse.json({ flagged: text.includes('banned_word') });
  }
  \<close>
  The JSON object of the response is the list of its keys and values. \<open>text\<close> is the
  \<^verbatim>\<open>text\<close> field of the request's JSON body, \<open>None\<close> when it is \<^verbatim>\<open>null\<close> or absent:
  such a value has no \<^verbatim>\<open>includes\<close>, the call throws a \<^verbatim>\<open>TypeError\<close>, and the handler
  has no \<^verbatim>\<open>try\<close> block around it.
\<close>

definition moderation_POST :: "js_string option \<Rightarrow> error + (string \<times> js_value) list" where
  "moderation_POST text =
     (case text of
        None \<Rightarrow> Inl TypeError
      | Some t \<Rightarrow> Inr [(''flagged'', JSBoolean (includes_str t (str ''banned_word'')))])"


section \<open>The post form\<close>

text \<open>
  \<^verbatim>\<open>SUGGESTED_CAPTIONS\<close> of the form component. The first caption ends with U+1F30A, the
  two code units D83C and DF0A, and the third with U+2728.
\<close>

definition SUGGESTED_CAPTIONS :: "js_string list" where
  "SUGGESTED_CAPTIONS =
     [str ''Feeling inspired by today's flow! '' @ [0xD83C, 0xDF0A],
      str ''Where ideas become reality. #FluxApp'',
      str ''Just another day in the stream of thoughts. '' @ [0x2728]]"

text \<open>
  The captions that \<^verbatim>\<open>CreatePostForm\<close> renders as buttons when its state \<^verbatim>\<open>content\<close> is
  \<open>c\<close>: \<^verbatim>\<open>SUGGESTED_CAPTIONS.map((caption, i) => <button ...>{caption}</button>)\<close>.
\<close>

definition suggestedCaptions :: "js_string \<Rightarrow> js_string list" where
  "suggestedCaptions c = map (\<lambda>caption. caption) SUGGESTED_CAPTIONS"

text \<open>
  The form's own moderation, in \<^verbatim>\<open>handlePost\<close>:
  \<^verbatim>\<open>if (content.toLowerCase().includes("spam")) { setShowError(true); return }\<close>
\<close>

definition handlePost_blocked :: "js_string \<Rightarrow> bool" where
  "handlePost_blocked c = includes_str (toLowerCase c) (str ''spam'')"


section \<open>The specification's quantities\<close>

text \<open>
  The specification speaks of hit counts and of matched terms, which the code does not
  compute. They are defined here from the specification's words, over the code's word
  lists, to be compared with what the code computes: the number of terms of a lexicon
  found as substrings of the lowercased text, each term counted once; and the banned
  terms found as substrings of the lowercased text, in lexicon order.
\<close>

definition spec_hits :: "js_string list \<Rightarrow> js_string \<Rightarrow> nat" where
  "spec_hits lexicon t = length (filter (\<lambda>w. includes_str (toLowerCase t) w) lexicon)"

definition spec_positiveHits :: "js_string \<Rightarrow> nat" where
  "spec_positiveHits t = spec_hits positiveWords t"

definition spec_negativeHits :: "js_string \<Rightarrow> nat" where
  "spec_negativeHits t = spec_hits negativeWords t"

definition spec_matchedTerms :: "js_string \<Rightarrow> js_string list" where
  "spec_matchedTerms t = filter (\<lambda>w. includes_str (toLowerCase t) w) bannedWords"


section \<open>Properties of the string functions\<close>

lemma startsWith_prefix: "startsWith s w = prefix w s"
  by (induction s w rule: startsWith.induct) auto

lemma includes_str_sublist: "includes_str s w = sublist w s"
  by (induction s) (simp_all add: sublist_Cons_right startsWith_prefix)

lemma some_list_ex: "some xs p = list_ex p xs"
  by (induction xs) simp_all

lemma some_filter: "some xs p = (filter p xs \<noteq> [])"
  by (induction xs) simp_all

lemma some_hits: "some xs p = (0 < length (filter p xs))"
  by (simp add: some_filter)

lemma toLowerChar_toUpperChar: "toLowerChar (toUpperChar u) = toLowerChar u"
  by (auto simp: toLowerChar_def toUpperChar_def)

lemma toLowerChar_idem: "toLowerChar (toLowerChar u) = toLowerChar u"
  by (auto simp: toLowerChar_def)

lemma toLowerCase_toUpperCase: "toLowerCase (toUpperCase t) = toLowerCase t"
  by (simp add: toLowerCase_def toUpperCase_def toLowerChar_toUpperChar)

lemma toLowerCase_idem: "toLowerCase (toLowerCase t) = toLowerCase t"
  by (simp add: toLowerCase_def toLowerChar_idem)

text \<open>A string of white space only, of ASCII or not, trims to the empty string, and a
  string with no white space at either end is trimmed to itself.\<close>

lemma trim_white: "list_all isWhiteSpace s \<Longrightarrow> trim s = []"
proof -
  assume "list_all isWhiteSpace s"
  then have d: "dropWhile isWhiteSpace s = []"
    by (simp add: list_all_iff)
  show "trim s = []"
    unfolding trim_def d by simp
qed

lemma trim_no_space:
  assumes "s \<noteq> []" and "\<not> isWhiteSpace (hd s)" and "\<not> isWhiteSpace (last s)"
  shows "trim s = s"
proof -
  have hd_kept: "dropWhile isWhiteSpace s = s"
    using assms(2) by (simp add: dropWhile_eq_self_iff)
  have last_kept: "dropWhile isWhiteSpace (rev s) = rev s"
    using assms(3) by (simp add: dropWhile_eq_self_iff hd_rev)
  show ?thesis
    by (simp add: trim_def hd_kept last_kept)
qed


section \<open>The handler as a whole\<close>

text \<open>A post is answered only to a session, for a content that passes both checks, and
  it holds what the locals computed.\<close>

lemma POST_Inr:
  "POST session dbOk body = Inr p \<Longrightarrow>
   \<exists>uid c. session = Some uid \<and> body = Some c \<and> c \<noteq> [] \<and> trim c \<noteq> []
     \<and> length c \<le> 2000 \<and> dbOk
     \<and> p = \<lparr> userId = uid, content = trim c, sentiment = sentiment_of c,
             flagged = flagged_of c, isFlagged = flagged_of c,
             flagReason = flagReason_of c, likes = 0, comments = 0 \<rparr>"
  by (auto simp: POST_def split: option.splits if_splits)

lemma POST_accepts:
  "c \<noteq> [] \<Longrightarrow> trim c \<noteq> [] \<Longrightarrow> length c \<le> 2000 \<Longrightarrow>
   POST (Some uid) True (Some c) =
     Inr \<lparr> userId = uid, content = trim c, sentiment = sentiment_of c,
           flagged = flagged_of c, isFlagged = flagged_of c,
           flagReason = flagReason_of c, likes = 0, comments = 0 \<rparr>"
  by (simp add: POST_def)

text \<open>
  The guard counts code units and knows the white space outside ASCII: a content of
  U+00A0 alone is answered with 400, and 1001 times U+00E9, which is 1001 code units, is
  not too long.
\<close>

lemma POST_nbsp_only: "POST (Some uid) dbOk (Some [0xA0]) = Inl ContentRequired"
  by (simp add: POST_def trim_def isWhiteSpace_def)

lemma POST_1001_e_acute:
  "POST (Some uid) True (Some (replicate 1001 0xE9)) =
     Inr \<lparr> userId = uid, content = replicate 1001 0xE9, sentiment = sentiment_of (replicate 1001 0xE9),
           flagged = flagged_of (replicate 1001 0xE9), isFlagged = flagged_of (replicate 1001 0xE9),
           flagReason = flagReason_of (replicate 1001 0xE9), likes = 0, comments = 0 \<rparr>"
proof -
  have t: "trim (replicate 1001 0xE9) = replicate 1001 0xE9"
    by (rule trim_no_space) (simp_all add: isWhiteSpace_def)
  have n: "replicate 1001 (0xE9 :: nat) \<noteq> []"
    by simp
  from POST_accepts [of "replicate 1001 0xE9" uid] t n show ?thesis
    by simp
qed

text \<open>
  On ASCII text the two checks of the post path that lowercase first, the handler's and
  the form's, do not see the case of the text.
\<close>

lemma lowercasing_paths_case_insensitive:
  assumes "isAscii t"
  shows "sentiment_of (toUpperCase t) = sentiment_of t"
    and "sentiment_of (toLowerCase t) = sentiment_of t"
    and "flagged_of (toUpperCase t) = flagged_of t"
    and "flagged_of (toLowerCase t) = flagged_of t"
    and "handlePost_blocked (toUpperCase t) = handlePost_blocked t"
    and "handlePost_blocked (toLowerCase t) = handlePost_blocked t"
  by (simp_all add: sentiment_of_def hasPositive_def hasNegative_def flagged_of_def
      handlePost_blocked_def lowerContent_def toLowerCase_toUpperCase toLowerCase_idem)

section \<open>Sentiment\<close>

text \<open>
  C1, as the code has it. The label is decided by presence, not by comparing hit counts:
  it is Positive when at least one positive term occurs and no negative term does,
  Negative when at least one negative term occurs and no positive term does, and Neutral
  otherwise.
\<close>

theorem sentiment_by_presence:
  "sentiment_of t =
     (if 0 < spec_positiveHits t \<and> spec_negativeHits t = 0 then Positive
      else if 0 < spec_negativeHits t \<and> spec_positiveHits t = 0 then Negative
      else Neutral)"
  by (simp add: sentiment_of_def hasPositive_def hasNegative_def some_hits
      spec_positiveHits_def spec_negativeHits_def spec_hits_def lowerContent_def)

text \<open>
  C1 as stated fails: a text with two positive terms and one negative term has more
  positive hits than negative hits, and its label is Neutral.
\<close>

theorem more_positive_hits_not_Positive:
  "spec_negativeHits (str ''great awesome bad'') < spec_positiveHits (str ''great awesome bad'')
   \<and> sentiment_of (str ''great awesome bad'') = Neutral"
  by code_simp

text \<open>
  C2, as the code has it. The analysis computes two truth values and a label, no counts:
  \<open>hasPositive\<close> holds exactly when at least one positive term occurs in the lowercased
  text, \<open>hasNegative\<close> exactly when at least one negative term does.
\<close>

theorem has_hits_iff:
  "hasPositive t = (0 < spec_positiveHits t) \<and> hasNegative t = (0 < spec_negativeHits t)"
  by (simp add: hasPositive_def hasNegative_def some_hits
      spec_positiveHits_def spec_negativeHits_def spec_hits_def lowerContent_def)

text \<open>
  C2 as stated fails: everything the analysis computes is the same for two texts whose
  positive hit counts differ, so nothing it returns is the count; read as a number, the
  truth value \<open>hasPositive\<close> is 1 where the count is 2.
\<close>

theorem result_does_not_carry_hits:
  "hasPositive (str ''great'') = hasPositive (str ''great awesome'')
   \<and> hasNegative (str ''great'') = hasNegative (str ''great awesome'')
   \<and> sentiment_of (str ''great'') = sentiment_of (str ''great awesome'')
   \<and> spec_positiveHits (str ''great'') = 1
   \<and> spec_positiveHits (str ''great awesome'') = 2
   \<and> (of_bool (hasPositive (str ''great awesome'')) :: nat) = 1"
  by code_simp

text \<open>
  C3. A text whose positive hit count equals its negative hit count, both above zero,
  has the label Neutral.
\<close>

theorem tie_is_Neutral:
  "spec_positiveHits t = spec_negativeHits t \<Longrightarrow> 0 < spec_positiveHits t
   \<Longrightarrow> sentiment_of t = Neutral"
  by (simp add: sentiment_of_def hasPositive_def hasNegative_def some_hits
      spec_positiveHits_def spec_negativeHits_def spec_hits_def lowerContent_def)

theorem tie_is_Neutral_witness:
  "spec_positiveHits (str ''Great, but BAD'') = spec_negativeHits (str ''Great, but BAD'')
   \<and> 0 < spec_positiveHits (str ''Great, but BAD'')
   \<and> sentiment_of (str ''Great, but BAD'') = Neutral"
proof -
  have eq: "spec_positiveHits (str ''Great, but BAD'') = spec_negativeHits (str ''Great, but BAD'')"
    by code_simp
  have pos: "0 < spec_positiveHits (str ''Great, but BAD'')"
    by code_simp
  from tie_is_Neutral [OF eq pos] eq pos show ?thesis by simp
qed


section \<open>Moderation\<close>

text \<open>
  C4 at the moderation endpoint. The endpoint searches the text as it is, without
  lowercasing it: the uppercased banned word is not flagged, and its lowercasing is.
\<close>

theorem moderation_endpoint_case_sensitive:
  "moderation_POST (Some (str ''BANNED_WORD'')) = Inr [(''flagged'', JSBoolean False)]
   \<and> moderation_POST (Some (toLowerCase (str ''BANNED_WORD''))) =
       Inr [(''flagged'', JSBoolean True)]
   \<and> flagged_of (str ''BANNED_WORD'') = True"
  by code_simp

text \<open>
  C5, as the code has it. In a post that the handler creates, \<open>flagged\<close> holds exactly
  when the banned terms found in the lowercased content, a sequence the code does not
  build, are not empty, and the reason is present exactly when \<open>flagged\<close> holds.
\<close>

theorem verdict_invariant:
  assumes "POST session dbOk (Some c) = Inr p"
  shows "flagged p = (spec_matchedTerms c \<noteq> [])
         \<and> isFlagged p = flagged p
         \<and> (flagReason p \<noteq> None) = flagged p"
proof -
  from POST_Inr [OF assms]
  have p: "p = \<lparr> userId = userId p, content = trim c, sentiment = sentiment_of c,
                 flagged = flagged_of c, isFlagged = flagged_of c,
                 flagReason = flagReason_of c, likes = 0, comments = 0 \<rparr>"
    by auto
  have f: "flagged p = flagged_of c" and i: "isFlagged p = flagged_of c"
    and r: "flagReason p = flagReason_of c"
    by (subst p, simp)+
  have m: "flagged_of c = (spec_matchedTerms c \<noteq> [])"
    by (simp add: flagged_of_def some_filter spec_matchedTerms_def lowerContent_def)
  show ?thesis
    using f i r m by (simp add: flagReason_of_def)
qed

theorem verdict_invariant_witness:
  "POST (Some (str ''507f1f77bcf86cd799439011'')) True (Some (str ''Buy SPAM now'')) =
     Inr \<lparr> userId = str ''507f1f77bcf86cd799439011'', content = str ''Buy SPAM now'',
           sentiment = Neutral, flagged = True, isFlagged = True,
           flagReason = Some (str ''Contains inappropriate content''),
           likes = 0, comments = 0 \<rparr>
   \<and> spec_matchedTerms (str ''Buy SPAM now'') = [str ''spam'']"
proof -
  have h: "POST (Some (str ''507f1f77bcf86cd799439011'')) True (Some (str ''Buy SPAM now'')) =
     Inr \<lparr> userId = str ''507f1f77bcf86cd799439011'', content = str ''Buy SPAM now'',
           sentiment = Neutral, flagged = True, isFlagged = True,
           flagReason = Some (str ''Contains inappropriate content''),
           likes = 0, comments = 0 \<rparr>"
    by (simp add: POST_def str_def trim_def isWhiteSpace_def toLowerCase_def toLowerChar_def
        lowerContent_def hasPositive_def hasNegative_def sentiment_of_def flagged_of_def
        flagReason_of_def positiveWords_def negativeWords_def bannedWords_def)
  have m: "spec_matchedTerms (str ''Buy SPAM now'') = [str ''spam'']"
    by code_simp
  from verdict_invariant [OF h] h m show ?thesis
    by simp
qed

text \<open>
  C5 as stated fails at the moderation endpoint: on a text with the banned word the
  verdict is flagged, and its JSON object has no reason.
\<close>

theorem flagged_without_reason:
  "moderation_POST (Some (str ''banned_word'')) = Inr [(''flagged'', JSBoolean True)]
   \<and> map_of [(''flagged'', JSBoolean True)] ''flagged'' = Some (JSBoolean True)
   \<and> map_of [(''flagged'', JSBoolean True)] ''reason'' = None"
  by code_simp



text \<open>
  C7, as the code has it. A content that is null or absent is not classified: the
  handler's guard answers it with the 400 response that content is required, the answer
  it gives to the empty string too.
\<close>

theorem absent_content_rejected:
  "POST (Some uid) dbOk None = Inl ContentRequired
   \<and> POST (Some uid) dbOk (Some (str '''')) = Inl ContentRequired"
  by (simp add: POST_def str_def)

text \<open>
  C7 as stated fails: with the content absent the handler answers an error and no post,
  and with the text absent the moderation endpoint throws, where on the empty string it
  answers a verdict.
\<close>

theorem absent_text_no_verdict:
  "POST (Some (str ''507f1f77bcf86cd799439011'')) True None = Inl ContentRequired
   \<and> moderation_POST None = Inl TypeError
   \<and> moderation_POST (Some (str '''')) = Inr [(''flagged'', JSBoolean False)]"
  by (simp add: POST_def moderation_POST_def str_def)

text \<open>
  C9, as the code has it. On the empty string the moderation endpoint answers
  \<open>flagged = false\<close>, the one field of its verdict. The handler that computes the
  sentiment does not classify the empty string: whatever the session's user and the
  state of the database, its guard answers the 400 response that content is required,
  with no label and no flag.
\<close>

theorem empty_string_answers:
  "moderation_POST (Some (str '''')) = Inr [(''flagged'', JSBoolean False)]
   \<and> POST (Some uid) dbOk (Some (str '''')) = Inl ContentRequired"
  by (simp add: POST_def moderation_POST_def str_def)

text \<open>
  C9 as stated fails: for the empty string the handler answers an error, not a post with
  the label Neutral.
\<close>

theorem empty_content_no_label:
  "POST (Some (str ''507f1f77bcf86cd799439011'')) True (Some (str '''')) = Inl ContentRequired"
  by (simp add: POST_def str_def)


section \<open>Captions\<close>

text \<open>
  C8. Whatever the content of the form, the empty content it starts with included, the
  captions it suggests are the three of \<open>SUGGESTED_CAPTIONS\<close>: between 3 and 5 strings,
  pairwise distinct.
\<close>

theorem captions_bounds:
  "suggestedCaptions c = SUGGESTED_CAPTIONS
   \<and> 3 \<le> length (suggestedCaptions c) \<and> length (suggestedCaptions c) \<le> 5
   \<and> distinct (suggestedCaptions c)"
  by (simp add: suggestedCaptions_def SUGGESTED_CAPTIONS_def str_def)


section \<open>The type guard\<close>

text \<open>
  C10. The type guard \<open>isSentimentType\<close> holds of a value exactly when the value is one of
  the three strings Positive, Neutral and Negative, that is, exactly when it is an element
  of \<open>SENTIMENT_TYPES\<close>, which lists these three strings and nothing else.
\<close>

theorem isSentimentType_iff:
  "isSentimentType v = (v \<in> set SENTIMENT_TYPES)
   \<and> isSentimentType v =
       (v = JSString (str ''Positive'') \<or> v = JSString (str ''Neutral'')
        \<or> v = JSString (str ''Negative''))
   \<and> length SENTIMENT_TYPES = 3 \<and> distinct SENTIMENT_TYPES"
  by (cases v) (auto simp: isSentimentType_def SENTIMENT_TYPES_def str_def)

end
